theory Spec2Isabelle
  imports Main "HOL-Library.Sublist"
begin

section \<open>Strings, results and the library calls of \<open>getTemplateInstallPackage\<close>\<close>

text \<open>
  The function under study is \<open>getTemplateInstallPackage(template, programDirectory)\<close> of
  the CLI's main module. A JavaScript string is modelled as a \<open>string\<close>, one \<open>char\<close>
  per code unit (the patterns of the function carry no \<open>u\<close> flag, so they work on code
  units); \<open>char\<close> has eight bits, so the model covers the strings whose code units are
  below 256. An absent (\<open>undefined\<close>) value is \<open>None\<close>.

  The function returns \<open>Promise.resolve(templateToInstall)\<close>: \<open>Inr s\<close> is the promise
  fulfilled with \<open>s\<close>. Reading an index of \<open>null\<close> and handing a non-string to
  \<open>path.resolve\<close> both throw a \<open>TypeError\<close> before any promise exists: \<open>Inl TypeError\<close>.
\<close>

datatype error = TypeError

definition is_line_terminator :: "char \<Rightarrow> bool" where
  \<comment> \<open>The characters that \<open>.\<close> does not match. Of the four line terminators of the
      language (LF, CR, U+2028, U+2029) the first two are code units below 256.\<close>
  "is_line_terminator c \<longleftrightarrow> c = CHR 0x0A \<or> c = CHR 0x0D"

definition dots :: "string \<Rightarrow> bool" where
  \<comment> \<open>The whole of the string can be consumed by \<open>.*\<close>.\<close>
  "dots s = list_all (\<lambda>c. \<not> is_line_terminator c) s"

definition startsWith :: "string \<Rightarrow> string \<Rightarrow> bool" where
  \<comment> \<open>\<open>s.startsWith(p)\<close>\<close>
  "startsWith s p = prefix p s"

definition includes_str :: "string \<Rightarrow> string \<Rightarrow> bool" where
  \<comment> \<open>\<open>s.includes(p)\<close> (\<open>includes\<close> is a keyword of Isabelle)\<close>
  "includes_str s p = sublist p s"

definition or_empty :: "string option \<Rightarrow> string" where
  \<comment> \<open>\<open>g || ''\<close> for a capture group \<open>g\<close>: \<open>undefined\<close> and the empty string are falsy.\<close>
  "or_empty g = (case g of None \<Rightarrow> [] | Some s \<Rightarrow> if s = [] then [] else s)"

definition path_resolve ::
  "(string \<Rightarrow> string \<Rightarrow> string) \<Rightarrow> string \<Rightarrow> string option \<Rightarrow> error + string" where
  \<comment> \<open>\<open>path.resolve(programDirectory, p)\<close> of Node, which is not part of the repository.
      On two strings its value is the parameter \<open>resolve\<close>; on an argument that is not a
      string it throws a \<open>TypeError\<close> (Node validates every path it reads, and it reads
      the last one first).\<close>
  "path_resolve resolve programDirectory p =
     (case p of None \<Rightarrow> Inl TypeError | Some q \<Rightarrow> Inr (resolve programDirectory q))"

section \<open>The three patterns\<close>

text \<open>
  \<open>template.match(/^file:(.*)?$/)\<close>. The outer \<open>None\<close> is \<open>null\<close> (no match); otherwise
  the value is capture group 1. After \<open>file:\<close> the group \<open>(.*)?\<close> must reach the end of
  the input, because \<open>$\<close> (no \<open>m\<close> flag) only matches there: a line terminator in the rest
  leaves no match. On an empty rest \<open>.*\<close> matches the empty string, and an iteration of
  a quantifier with minimum 0 that consumes nothing is discarded, so the optional group
  is skipped and stays \<open>undefined\<close>.
\<close>

definition match_file_path :: "string \<Rightarrow> string option option" where
  "match_file_path t =
     (if \<not> prefix ''file:'' t then None
      else let p = drop 5 t in
        if p = [] then Some None
        else if dots p then Some (Some p)
        else None)"

text \<open>
  \<open>template.match(/^.+\.(tgz|tar\.gz)$/)\<close>, used for its truth value only. The input
  has to be a non-empty run of characters matched by \<open>.\<close>, followed by one of the two
  extensions at the end of the input.
\<close>

definition match_stem_ext :: "string \<Rightarrow> string \<Rightarrow> bool" where
  "match_stem_ext ext t =
     (suffix ext t \<and>
      (let stem = take (length t - length ext) t in stem \<noteq> [] \<and> dots stem))"

definition match_archive :: "string \<Rightarrow> bool" where
  "match_archive t = (match_stem_ext ''.tgz'' t \<or> match_stem_ext ''.tar.gz'' t)"

text \<open>
  \<open>template.match(/^(@[^/]+\/)?([^@]+)?(@.+)?$/)\<close>, in three pieces.

  \<open>match_scope\<close> is \<open>@[^/]+\/\<close> at the start of the input: an \<open>@\<close>, a non-empty run of
  characters other than \<open>/\<close>, and a \<open>/\<close>. The run cannot cross a \<open>/\<close> and must be followed
  by one, so it ends at the first \<open>/\<close> after the \<open>@\<close>. The result is the captured text
  and the rest of the input.
\<close>

definition match_scope :: "string \<Rightarrow> (string \<times> string) option" where
  "match_scope s =
     (case s of
        [] \<Rightarrow> None
      | c # r \<Rightarrow>
          if c \<noteq> CHR ''@'' then None
          else let run = takeWhile (\<lambda>x. x \<noteq> CHR ''/'') r;
                   rest = dropWhile (\<lambda>x. x \<noteq> CHR ''/'') r
               in if run = [] \<or> rest = [] then None
                  else Some (c # run @ ''/'', tl rest))"

text \<open>
  \<open>match_name_version\<close> is \<open>([^@]+)?(@.+)?$\<close> on the rest. The name group takes the
  longest run without \<open>@\<close>; a shorter run would be followed by a character that is not
  \<open>@\<close>, where neither the version group nor \<open>$\<close> matches. What is left is empty (no
  version group) or starts with \<open>@\<close>, and then \<open>.+\<close> has to consume at least one character
  and everything up to the end. A group that matched nothing is \<open>undefined\<close>.
\<close>

definition match_name_version :: "string \<Rightarrow> (string option \<times> string option) option" where
  "match_name_version s =
     (let run = takeWhile (\<lambda>x. x \<noteq> CHR ''@'') s;
          rest = dropWhile (\<lambda>x. x \<noteq> CHR ''@'') s;
          name = (if run = [] then None else Some run)
      in if rest = [] then Some (name, None)
         else if tl rest \<noteq> [] \<and> dots (tl rest) then Some (name, Some rest)
         else None)"

text \<open>
  The whole pattern: the optional scope group is tried first (it is greedy); when the
  rest of the pattern fails after it, the matcher backtracks and tries again with the
  scope group skipped and its capture \<open>undefined\<close>. \<open>None\<close> is \<open>null\<close>.
\<close>

definition packageMatch ::
  "string \<Rightarrow> (string option \<times> string option \<times> string option) option" where
  "packageMatch t =
     (let skipped = (case match_name_version t of
                       None \<Rightarrow> None
                     | Some (n, v) \<Rightarrow> Some (None, n, v))
      in case match_scope t of
           None \<Rightarrow> skipped
         | Some (sc, rest) \<Rightarrow>
             (case match_name_version rest of
                None \<Rightarrow> skipped
              | Some (n, v) \<Rightarrow> Some (Some sc, n, v)))"

section \<open>The resolver\<close>

definition getTemplateInstallPackage ::
  "(string \<Rightarrow> string \<Rightarrow> string) \<Rightarrow> string option \<Rightarrow> string \<Rightarrow> error + string" where
  "getTemplateInstallPackage resolve template programDirectory =
     (let templateToInstall = ''tjs-template'' in
      case template of
        None \<Rightarrow> Inr templateToInstall
      | Some t \<Rightarrow>
          if t = [] then Inr templateToInstall
          else if startsWith t ''file:'' then
            (case match_file_path t of
               None \<Rightarrow> Inl TypeError
             | Some g \<Rightarrow>
                 (case path_resolve resolve programDirectory g of
                    Inl e \<Rightarrow> Inl e
                  | Inr p \<Rightarrow> Inr (''file:'' @ p)))
          else if includes_str t ''://'' \<or> match_archive t then Inr t
          else
            (case packageMatch t of
               None \<Rightarrow> Inl TypeError
             | Some (g1, g2, g3) \<Rightarrow>
                 let scope = or_empty g1;
                     templateName = or_empty g2;
                     version = or_empty g3
                 in if templateName = templateToInstall
                       \<or> startsWith templateName (templateToInstall @ ''-'')
                    then Inr (scope @ templateName @ version)
                    else if version \<noteq> [] \<and> scope = [] \<and> templateName = []
                    then Inr (version @ ''/'' @ templateToInstall)
                    else Inr (scope @ templateToInstall @ ''-'' @ templateName @ version)))"

section \<open>Path conditions and a sample of \<open>path.resolve\<close>\<close>

text \<open>
  \<open>package_style\<close> is the condition under which \<open>getTemplateInstallPackage\<close> reaches its
  last \<open>else\<close>, where the input is decomposed: the template is truthy, the test
  \<open>/^file:/\<close> fails, and so does the test for \<open>://\<close> or an archive name.
  \<open>scope_only\<close> is the condition \<open>version && !scope && !templateName\<close> of the second
  branch after the decomposition.
\<close>

definition package_style :: "string \<Rightarrow> bool" where
  "package_style t \<longleftrightarrow>
     t \<noteq> [] \<and> \<not> startsWith t ''file:'' \<and> \<not> (includes_str t ''://'' \<or> match_archive t)"

definition scope_only :: "string \<Rightarrow> bool" where
  "scope_only t =
     (case packageMatch t of
        None \<Rightarrow> False
      | Some (g1, g2, g3) \<Rightarrow> or_empty g3 \<noteq> [] \<and> or_empty g1 = [] \<and> or_empty g2 = [])"

text \<open>
  An instance of the parameter \<open>resolve\<close> for the closed examples below: for an absolute
  directory \<open>d\<close> without a trailing \<open>/\<close> and a relative path \<open>p\<close> of plain segments,
  \<open>path.resolve(d, p)\<close> is \<open>d/p\<close>.
\<close>

definition plain_resolve :: "string \<Rightarrow> string \<Rightarrow> string" where
  "plain_resolve d p = d @ ''/'' @ p"

text \<open>
  A second instance, for a base directory that may be relative: when the segments
  handed to \<open>path.resolve\<close> do not make an absolute path, Node resolves them against the
  working directory of the process, \<open>process.cwd()\<close>, here the first argument. The
  caller of the resolver passes \<open>process.cwd()\<close> itself as \<open>programDirectory\<close>.
\<close>

definition cwd_resolve :: "string \<Rightarrow> string \<Rightarrow> string \<Rightarrow> string" where
  "cwd_resolve cwd d p =
     (if prefix ''/'' d then plain_resolve d p else plain_resolve (plain_resolve cwd d) p)"

section \<open>The decomposition: its pieces and their concatenation\<close>

lemma or_empty_simps [simp]: "or_empty None = []" "or_empty (Some s) = s"
  by (simp_all add: or_empty_def)

lemma match_name_version_cases:
  assumes "match_name_version s = Some (n, v)"
  shows "or_empty n = takeWhile (\<lambda>x. x \<noteq> CHR ''@'') s"
    and "or_empty v = dropWhile (\<lambda>x. x \<noteq> CHR ''@'') s"
    and "n \<noteq> Some []" and "v \<noteq> Some []"
    and "v \<noteq> None \<Longrightarrow> tl (or_empty v) \<noteq> [] \<and> dots (tl (or_empty v))"
proof -
  define run where "run = takeWhile (\<lambda>x. x \<noteq> CHR ''@'') s"
  define rest where "rest = dropWhile (\<lambda>x. x \<noteq> CHR ''@'') s"
  have m: "(if rest = [] then Some (if run = [] then None else Some run, None)
            else if tl rest \<noteq> [] \<and> dots (tl rest)
                 then Some (if run = [] then None else Some run, Some rest)
                 else None) = Some (n, v)"
    using assms unfolding match_name_version_def Let_def run_def rest_def .
  have n: "n = (if run = [] then None else Some run)"
    using m by (simp split: if_split_asm)
  have v: "v = (if rest = [] then None else Some rest)"
    using m by (simp split: if_split_asm)
  have d: "rest \<noteq> [] \<Longrightarrow> tl rest \<noteq> [] \<and> dots (tl rest)"
    using m by (simp split: if_split_asm)
  show "or_empty n = takeWhile (\<lambda>x. x \<noteq> CHR ''@'') s"
    unfolding run_def[symmetric] by (simp add: n)
  show "or_empty v = dropWhile (\<lambda>x. x \<noteq> CHR ''@'') s"
    unfolding rest_def[symmetric] by (simp add: v)
  show "n \<noteq> Some []" by (simp add: n)
  show "v \<noteq> Some []" by (simp add: v)
  show "v \<noteq> None \<Longrightarrow> tl (or_empty v) \<noteq> [] \<and> dots (tl (or_empty v))"
    using d by (simp add: v split: if_split_asm)
qed

lemma match_name_version_concat:
  assumes "match_name_version s = Some (n, v)"
  shows "or_empty n @ or_empty v = s"
  by (simp add: match_name_version_cases(1,2)[OF assms])

lemma match_scope_cases:
  assumes "match_scope s = Some (sc, rest)"
  obtains run where "run \<noteq> []" "CHR ''/'' \<notin> set run"
    "sc = CHR ''@'' # run @ ''/''" "s = sc @ rest"
proof (cases s)
  case Nil
  with assms show ?thesis by (simp add: match_scope_def)
next
  case (Cons c r)
  define run where "run = takeWhile (\<lambda>x. x \<noteq> CHR ''/'') r"
  define rest' where "rest' = dropWhile (\<lambda>x. x \<noteq> CHR ''/'') r"
  have m: "(if c \<noteq> CHR ''@'' then None
            else if run = [] \<or> rest' = [] then None
                 else Some (c # run @ ''/'', tl rest')) = Some (sc, rest)"
    using assms unfolding Cons match_scope_def Let_def run_def rest'_def by simp
  then have c: "c = CHR ''@''" and run: "run \<noteq> []" and ne: "rest' \<noteq> []"
    and sc: "sc = CHR ''@'' # run @ ''/''" and rest: "rest = tl rest'"
    by (auto split: if_split_asm)
  have "hd rest' = CHR ''/''"
    using ne hd_dropWhile[of "\<lambda>x. x \<noteq> CHR ''/''" r] unfolding rest'_def by simp
  with ne have r': "rest' = CHR ''/'' # rest"
    unfolding rest by (cases rest') simp_all
  have "r = run @ rest'"
    unfolding run_def rest'_def by simp
  then have s: "s = sc @ rest"
    unfolding Cons c sc r' by simp
  have "CHR ''/'' \<notin> set run"
    unfolding run_def using set_takeWhileD by fastforce
  with run sc s show ?thesis using that by blast
qed

lemma match_scope_concat:
  assumes "match_scope s = Some (sc, rest)"
  shows "sc @ rest = s"
  using assms by (elim match_scope_cases) simp

lemma match_scope_extend:
  assumes "match_scope s = Some (sc, rest)"
  shows "match_scope (sc @ x) = Some (sc, x)"
proof -
  from assms obtain run where run: "run \<noteq> []" "CHR ''/'' \<notin> set run"
    and sc: "sc = CHR ''@'' # run @ ''/''"
    by (elim match_scope_cases)
  have t: "takeWhile (\<lambda>x. x \<noteq> CHR ''/'') (run @ CHR ''/'' # x) = run"
    using run(2) by (auto simp: takeWhile_tail)
  have d: "dropWhile (\<lambda>x. x \<noteq> CHR ''/'') (run @ CHR ''/'' # x) = CHR ''/'' # x"
    using run(2) by (auto simp: dropWhile_append3)
  show ?thesis
    unfolding sc match_scope_def using run(1) by (simp add: t d)
qed

lemma packageMatch_cases:
  assumes "packageMatch t = Some (g1, g2, g3)"
  obtains (scoped) sc rest where "g1 = Some sc" "match_scope t = Some (sc, rest)"
      "match_name_version rest = Some (g2, g3)"
  | (bare) "g1 = None" "match_name_version t = Some (g2, g3)"
  using assms unfolding packageMatch_def Let_def
  by (auto split: option.splits prod.splits)

lemma packageMatch_concat:
  assumes "packageMatch t = Some (g1, g2, g3)"
  shows "or_empty g1 @ or_empty g2 @ or_empty g3 = t"
  using assms
proof (cases rule: packageMatch_cases)
  case (scoped sc rest)
  then show ?thesis
    using match_scope_concat match_name_version_concat by fastforce
next
  case bare
  then show ?thesis
    using match_name_version_concat by simp
qed

section \<open>The branches of the resolver\<close>

lemma package_branch_eval:
  assumes "package_style t" and "packageMatch t = Some (g1, g2, g3)"
  shows "getTemplateInstallPackage resolve (Some t) d =
     (if or_empty g2 = ''tjs-template'' \<or> startsWith (or_empty g2) ''tjs-template-''
      then Inr (or_empty g1 @ or_empty g2 @ or_empty g3)
      else if or_empty g3 \<noteq> [] \<and> or_empty g1 = [] \<and> or_empty g2 = []
      then Inr (or_empty g3 @ ''/tjs-template'')
      else Inr (or_empty g1 @ ''tjs-template-'' @ or_empty g2 @ or_empty g3))"
  using assms unfolding getTemplateInstallPackage_def package_style_def Let_def
  by simp

lemma package_branch_null:
  assumes "package_style t" and "packageMatch t = None"
  shows "getTemplateInstallPackage resolve (Some t) d = Inl TypeError"
  using assms unfolding getTemplateInstallPackage_def package_style_def Let_def
  by simp

lemma verbatim_branch:
  assumes "t \<noteq> []" and "\<not> startsWith t ''file:''"
    and "includes_str t ''://'' \<or> match_archive t"
  shows "getTemplateInstallPackage resolve (Some t) d = Inr t"
  using assms unfolding getTemplateInstallPackage_def Let_def
  by simp

lemma canonical_fixed:
  assumes "r \<noteq> []" and "\<not> startsWith r ''file:''"
    and "packageMatch r = Some (h1, h2, h3)"
    and "or_empty h2 = ''tjs-template'' \<or> startsWith (or_empty h2) ''tjs-template-''"
  shows "getTemplateInstallPackage resolve (Some r) d = Inr r"
proof (cases "includes_str r ''://'' \<or> match_archive r")
  case True
  with assms(1,2) show ?thesis by (rule verbatim_branch)
next
  case False
  with assms(1,2) have "package_style r" by (simp add: package_style_def)
  from package_branch_eval[OF this assms(3)] assms(4) packageMatch_concat[OF assms(3)]
  show ?thesis by simp
qed

lemma match_name_version_prefixed:
  assumes "match_name_version x = Some (n, v)"
  shows "match_name_version (''tjs-template-'' @ x) =
         Some (Some (''tjs-template-'' @ or_empty n), v)"
proof -
  define run where "run = takeWhile (\<lambda>c. c \<noteq> CHR ''@'') x"
  define rest where "rest = dropWhile (\<lambda>c. c \<noteq> CHR ''@'') x"
  have p: "\<forall>c\<in>set ''tjs-template-''. c \<noteq> CHR ''@''" by simp
  have t: "takeWhile (\<lambda>c. c \<noteq> CHR ''@'') (''tjs-template-'' @ x) = ''tjs-template-'' @ run"
    unfolding run_def using p by (intro takeWhile_append2) blast
  have d: "dropWhile (\<lambda>c. c \<noteq> CHR ''@'') (''tjs-template-'' @ x) = rest"
    unfolding rest_def using p by (intro dropWhile_append2) blast
  have n: "or_empty n = run" and v: "or_empty v = rest"
    using match_name_version_cases(1,2)[OF assms] by (simp_all add: run_def rest_def)
  have v': "v = (if rest = [] then None else Some rest)"
    using v match_name_version_cases(4)[OF assms] by (cases v) auto
  have ok: "rest \<noteq> [] \<Longrightarrow> tl rest \<noteq> [] \<and> dots (tl rest)"
    using match_name_version_cases(5)[OF assms] v v' by (auto split: if_split_asm)
  show ?thesis
    unfolding match_name_version_def Let_def t d n using ok v' by simp
qed

lemma packageMatch_injected:
  assumes "packageMatch t = Some (g1, g2, g3)"
  shows "packageMatch (or_empty g1 @ ''tjs-template-'' @ or_empty g2 @ or_empty g3) =
         Some (g1, Some (''tjs-template-'' @ or_empty g2), g3)"
  using assms
proof (cases rule: packageMatch_cases)
  case (scoped sc rest)
  have rest: "or_empty g2 @ or_empty g3 = rest"
    using match_name_version_concat[OF scoped(3)] .
  have s: "match_scope (sc @ ''tjs-template-'' @ rest) = Some (sc, ''tjs-template-'' @ rest)"
    using match_scope_extend[OF scoped(2)] .
  have "packageMatch (sc @ ''tjs-template-'' @ rest) =
        Some (Some sc, Some (''tjs-template-'' @ or_empty g2), g3)"
    unfolding packageMatch_def Let_def s
    using match_name_version_prefixed[OF scoped(3)] by simp
  then show ?thesis using scoped(1) rest by simp
next
  case bare
  have t: "or_empty g2 @ or_empty g3 = t"
    using match_name_version_concat[OF bare(2)] .
  have s: "match_scope (''tjs-template-'' @ t) = None"
    by (simp add: match_scope_def)
  have "packageMatch (''tjs-template-'' @ t) =
        Some (None, Some (''tjs-template-'' @ or_empty g2), g3)"
    unfolding packageMatch_def Let_def s
    using match_name_version_prefixed[OF bare(2)] by simp
  then show ?thesis using bare(1) t by simp
qed

section \<open>Shapes of inputs and of results\<close>

text \<open>
  An \<open>@\<close> followed by a non-empty run without \<open>/\<close> and without line terminators is
  captured whole by the version group: this is the input \<open>@SCOPE\<close> of the second branch.
\<close>

lemma at_token_decomposes:
  assumes "w \<noteq> []" and "CHR ''/'' \<notin> set w" and "dots w"
  shows "packageMatch (CHR ''@'' # w) = Some (None, None, Some (CHR ''@'' # w))"
proof -
  have "dropWhile (\<lambda>x. x \<noteq> CHR ''/'') w = []"
    using assms(2) by auto
  then have s: "match_scope (CHR ''@'' # w) = None"
    by (simp add: match_scope_def)
  have "match_name_version (CHR ''@'' # w) = Some (None, Some (CHR ''@'' # w))"
    using assms(1,3) by (simp add: match_name_version_def)
  then show ?thesis
    unfolding packageMatch_def Let_def s by simp
qed

lemma scoped_base_decomposes:
  assumes "w \<noteq> []" and "CHR ''/'' \<notin> set w"
  shows "packageMatch (CHR ''@'' # w @ ''/tjs-template'') =
         Some (Some (CHR ''@'' # w @ ''/''), Some ''tjs-template'', None)"
proof -
  have t: "takeWhile (\<lambda>x. x \<noteq> CHR ''/'') (w @ CHR ''/'' # ''tjs-template'') = w"
    using assms(2) by (auto simp: takeWhile_tail)
  have d: "dropWhile (\<lambda>x. x \<noteq> CHR ''/'') (w @ CHR ''/'' # ''tjs-template'') =
           CHR ''/'' # ''tjs-template''"
    using assms(2) by (auto simp: dropWhile_append3)
  have s: "match_scope (CHR ''@'' # w @ ''/tjs-template'') =
           Some (CHR ''@'' # w @ ''/'', ''tjs-template'')"
    unfolding match_scope_def using assms(1) t d by simp
  have n: "match_name_version ''tjs-template'' = Some (Some ''tjs-template'', None)"
    by code_simp
  show ?thesis
    unfolding packageMatch_def Let_def by (simp add: s n)
qed

lemma scope_only_shape:
  assumes "packageMatch t = Some (g1, g2, g3)"
    and "or_empty g3 \<noteq> []" and "or_empty g1 = []" and "or_empty g2 = []"
  obtains w where "t = CHR ''@'' # w" "w \<noteq> []" "dots w" "or_empty g3 = t"
  using assms(1)
proof (cases rule: packageMatch_cases)
  case (scoped sc rest)
  then have "or_empty g1 \<noteq> []"
    by (elim match_scope_cases) simp
  with assms(3) show ?thesis by simp
next
  case bare
  have t: "or_empty g3 = t"
    using packageMatch_concat[OF assms(1)] assms(3,4) by simp
  with assms(2) have ne: "t \<noteq> []" by simp
  have "takeWhile (\<lambda>x. x \<noteq> CHR ''@'') t = []"
    using match_name_version_cases(1)[OF bare(2)] assms(4) by simp
  with ne have hd: "hd t = CHR ''@''"
    by (simp add: takeWhile_eq_Nil_iff)
  from assms(2) have "g3 \<noteq> None" by (cases g3) simp_all
  from match_name_version_cases(5)[OF bare(2) this] t
  have "tl t \<noteq> []" "dots (tl t)" by simp_all
  moreover from ne hd have "t = CHR ''@'' # tl t" by (cases t) simp_all
  ultimately show ?thesis using that t by blast
qed

lemma injected_not_file:
  assumes "packageMatch t = Some (g1, g2, g3)"
  shows "\<not> startsWith (or_empty g1 @ ''tjs-template-'' @ x) ''file:''"
  using assms
proof (cases rule: packageMatch_cases)
  case (scoped sc rest)
  then show ?thesis
    by (elim match_scope_cases) (simp add: startsWith_def)
next
  case bare
  then show ?thesis by (simp add: startsWith_def)
qed

lemma not_archive_if_no_extension:
  assumes "\<not> suffix ''.tgz'' t" and "\<not> suffix ''.tar.gz'' t"
  shows "\<not> match_archive t"
  using assms by (simp add: match_archive_def match_stem_ext_def)

lemma match_stem_ext_append:
  assumes "stem \<noteq> []" and "dots stem"
  shows "match_stem_ext ext (stem @ ext)"
  using assms by (simp add: match_stem_ext_def suffix_def)

text \<open>
  The local-path branch on a well-formed rest: when the text after \<open>file:\<close> is not empty
  and has no line terminator, the result is \<open>file:\<close> and the resolved path, whatever
  else the input contains (the test for \<open>file:\<close> comes first).
\<close>

lemma file_branch:
  assumes "p \<noteq> []" and "dots p"
  shows "getTemplateInstallPackage resolve (Some (''file:'' @ p)) d =
         Inr (''file:'' @ resolve d p)"
  using assms
  by (simp add: getTemplateInstallPackage_def startsWith_def match_file_path_def
      path_resolve_def)

text \<open>
  The inputs on which the resolver throws instead of returning: after \<open>file:\<close>, an empty
  rest or a rest with a line terminator; in the last branch, an input that the
  decomposition pattern does not match. On every other input it returns a string.
\<close>

lemma resolver_throws_iff:
  "getTemplateInstallPackage resolve (Some t) d = Inl TypeError \<longleftrightarrow>
     (startsWith t ''file:'' \<and> (drop 5 t = [] \<or> \<not> dots (drop 5 t)))
     \<or> (package_style t \<and> packageMatch t = None)"
proof (cases "startsWith t ''file:''")
  case True
  then have "t \<noteq> []" by (auto simp: startsWith_def)
  with True show ?thesis
    by (simp add: getTemplateInstallPackage_def match_file_path_def path_resolve_def
        package_style_def startsWith_def Let_def)
next
  case False
  show ?thesis
  proof (cases "package_style t")
    case True
    then show ?thesis
      using False package_branch_null[OF True, of resolve d]
        package_branch_eval[OF True, of _ _ _ resolve d]
      by (cases "packageMatch t") (auto split: if_split_asm)
  next
    case np: False
    with False have "t = [] \<or> includes_str t ''://'' \<or> match_archive t"
      by (auto simp: package_style_def)
    with False np show ?thesis
      by (auto simp: getTemplateInstallPackage_def Let_def)
  qed
qed

text \<open>
  An archive name with a line terminator before the extension is not recognised by
  \<open>/^.+\.(tgz|tar\.gz)$/\<close> and is treated as a package name.
\<close>

lemma archive_line_terminator_example:
  "getTemplateInstallPackage resolve (Some (''a'' @ [CHR 0x0A] @ ''.tgz'')) d =
   Inr (''tjs-template-a'' @ [CHR 0x0A] @ ''.tgz'')"
  by code_simp

section \<open>The claims\<close>

text \<open>
  Claim C1 says that the resolver returns a string and raises no error for every string
  input, a bare \<open>@\<close> among them. On \<open>@\<close> the code does not return: none of the three
  groups of the decomposition pattern can match (the scope needs a \<open>/\<close>, the name cannot
  start at an \<open>@\<close>, the version needs a character after the \<open>@\<close>), so \<open>match\<close> gives
  \<open>null\<close> and \<open>packageMatch[1]\<close> throws a \<open>TypeError\<close>, for every base directory.
\<close>

theorem C1_at_sign_throws:
  "getTemplateInstallPackage resolve (Some ''@'') d = Inl TypeError"
  by code_simp

text \<open>
  Claim C2: an input that does not start with \<open>file:\<close>, does not contain \<open>://\<close>, does not
  end in \<open>.tgz\<close> or \<open>.tar.gz\<close>, and that the pattern decomposes into an optional scope, a
  name and an optional version, where the name is present, is not \<open>tjs-template\<close> and
  does not start with \<open>tjs-template-\<close>, resolves to scope, \<open>tjs-template-\<close>, name and
  version in this order; scope, name and version are the pieces of the input, unchanged.
  (The claim excludes every name that starts with \<open>tjs-template\<close>; the theorem excludes
  fewer names, as the code does.)
\<close>

theorem C2_prefix_injected:
  assumes "\<not> startsWith t ''file:''" and "\<not> includes_str t ''://''"
    and "\<not> suffix ''.tgz'' t" and "\<not> suffix ''.tar.gz'' t"
    and "packageMatch t = Some (scope, name, version)"
    and "or_empty name \<noteq> []"
    and "or_empty name \<noteq> ''tjs-template''"
    and "\<not> startsWith (or_empty name) ''tjs-template-''"
  shows "getTemplateInstallPackage resolve (Some t) d =
           Inr (or_empty scope @ ''tjs-template-'' @ or_empty name @ or_empty version)
         \<and> t = or_empty scope @ or_empty name @ or_empty version"
proof -
  have t: "t = or_empty scope @ or_empty name @ or_empty version"
    using packageMatch_concat[OF assms(5)] by simp
  with assms(6) have "t \<noteq> []" by auto
  with assms(1-4) have "package_style t"
    by (simp add: package_style_def not_archive_if_no_extension)
  from package_branch_eval[OF this assms(5)] assms(6-8) t show ?thesis by simp
qed

text \<open>
  The two examples of claim C2: \<open>my-template\<close> and \<open>@scope/my-template@1.0.0\<close>.
\<close>

theorem C2_prefix_injected_witness:
  "getTemplateInstallPackage plain_resolve (Some ''my-template'') ''/home/me'' =
     Inr ''tjs-template-my-template''
   \<and> getTemplateInstallPackage plain_resolve (Some ''@scope/my-template@1.0.0'') ''/home/me'' =
     Inr ''@scope/tjs-template-my-template@1.0.0''"
proof -
  have a: "\<not> startsWith ''my-template'' ''file:''"
      "\<not> includes_str ''my-template'' ''://''"
      "\<not> suffix ''.tgz'' ''my-template''"
      "\<not> suffix ''.tar.gz'' ''my-template''"
      "packageMatch ''my-template'' = Some (None, Some ''my-template'', None)"
      "or_empty (Some ''my-template'') \<noteq> []"
      "or_empty (Some ''my-template'') \<noteq> ''tjs-template''"
      "\<not> startsWith (or_empty (Some ''my-template'')) ''tjs-template-''"
    by code_simp+
  have b: "\<not> startsWith ''@scope/my-template@1.0.0'' ''file:''"
      "\<not> includes_str ''@scope/my-template@1.0.0'' ''://''"
      "\<not> suffix ''.tgz'' ''@scope/my-template@1.0.0''"
      "\<not> suffix ''.tar.gz'' ''@scope/my-template@1.0.0''"
      "packageMatch ''@scope/my-template@1.0.0'' =
         Some (Some ''@scope/'', Some ''my-template'', Some ''@1.0.0'')"
    by code_simp+
  from C2_prefix_injected[OF a, of plain_resolve "''/home/me''"]
       C2_prefix_injected[OF b a(6-8), of plain_resolve "''/home/me''"]
  show ?thesis by simp
qed

text \<open>
  Claim C3: on an input that reaches the decomposition and whose decomposed name is
  \<open>tjs-template\<close> or starts with \<open>tjs-template-\<close>, the resolver returns scope, name and
  version concatenated, and this is the input itself.
\<close>

theorem C3_canonical_unchanged:
  assumes "package_style t"
    and "packageMatch t = Some (scope, name, version)"
    and "or_empty name = ''tjs-template'' \<or> startsWith (or_empty name) ''tjs-template-''"
  shows "getTemplateInstallPackage resolve (Some t) d =
           Inr (or_empty scope @ or_empty name @ or_empty version)
         \<and> getTemplateInstallPackage resolve (Some t) d = Inr t"
  using package_branch_eval[OF assms(1,2), of resolve d] assms(3)
    packageMatch_concat[OF assms(2)]
  by simp

text \<open>
  Claim C3 on \<open>@scope/tjs-template-rollup-library@next\<close> and on \<open>tjs-template@next\<close>.
\<close>

theorem C3_canonical_unchanged_witness:
  "getTemplateInstallPackage plain_resolve
     (Some ''@scope/tjs-template-rollup-library@next'') ''/home/me'' =
   Inr ''@scope/tjs-template-rollup-library@next''
   \<and> getTemplateInstallPackage plain_resolve (Some ''tjs-template@next'') ''/home/me'' =
   Inr ''tjs-template@next''"
proof -
  have a: "package_style ''@scope/tjs-template-rollup-library@next''"
      "packageMatch ''@scope/tjs-template-rollup-library@next'' =
         Some (Some ''@scope/'', Some ''tjs-template-rollup-library'', Some ''@next'')"
      "or_empty (Some ''tjs-template-rollup-library'') = ''tjs-template''
       \<or> startsWith (or_empty (Some ''tjs-template-rollup-library'')) ''tjs-template-''"
    by code_simp+
  have b: "package_style ''tjs-template@next''"
      "packageMatch ''tjs-template@next'' = Some (None, Some ''tjs-template'', Some ''@next'')"
      "or_empty (Some ''tjs-template'') = ''tjs-template''
       \<or> startsWith (or_empty (Some ''tjs-template'')) ''tjs-template-''"
    by code_simp+
  from C3_canonical_unchanged[OF a, of plain_resolve "''/home/me''"]
       C3_canonical_unchanged[OF b, of plain_resolve "''/home/me''"]
  show ?thesis by simp
qed

text \<open>
  Claim C4: on an input that reaches the decomposition and decomposes with a version
  fragment but with no scope and no name, the resolver returns the captured fragment,
  a \<open>/\<close> and \<open>tjs-template\<close>; the fragment is the whole input. (By \<open>at_token_decomposes\<close>
  an \<open>@\<close> followed by a non-empty run without \<open>/\<close> and line terminators decomposes so.)
\<close>

theorem C4_scope_only:
  assumes "package_style t"
    and "packageMatch t = Some (scope, name, version)"
    and "or_empty version \<noteq> []" and "or_empty scope = []" and "or_empty name = []"
  shows "getTemplateInstallPackage resolve (Some t) d =
           Inr (or_empty version @ ''/'' @ ''tjs-template'')
         \<and> or_empty version = t"
  using package_branch_eval[OF assms(1,2), of resolve d] assms(3-5)
    packageMatch_concat[OF assms(2)]
  by (simp add: startsWith_def)

text \<open>
  Claim C4 on \<open>@scope\<close>.
\<close>

theorem C4_scope_only_witness:
  "getTemplateInstallPackage plain_resolve (Some ''@scope'') ''/home/me'' =
   Inr ''@scope/tjs-template''"
proof -
  have a: "package_style ''@scope''"
      "packageMatch ''@scope'' = Some (None, None, Some ''@scope'')"
      "or_empty (Some ''@scope'') \<noteq> []" "or_empty None = []" "or_empty None = []"
    by code_simp+
  from C4_scope_only[OF a, of plain_resolve "''/home/me''"]
  show ?thesis by simp
qed

text \<open>
  Claim C5 says that every input that does not start with \<open>file:\<close> and that contains
  \<open>://\<close> or ends with \<open>.tgz\<close> or \<open>.tar.gz\<close> is returned unchanged, the bare strings
  \<open>.tgz\<close> and \<open>.tar.gz\<close> included. The pattern \<open>/^.+\.(tgz|tar\.gz)$/\<close> asks for at
  least one character before the extension, so the two bare strings are not recognised
  as archives: they are decomposed as package names and get the prefix.
\<close>

theorem C5_counterexample:
  "\<not> startsWith ''.tgz'' ''file:'' \<and> suffix ''.tgz'' ''.tgz''
   \<and> getTemplateInstallPackage plain_resolve (Some ''.tgz'') ''/home/me'' =
       Inr ''tjs-template-.tgz''
   \<and> getTemplateInstallPackage plain_resolve (Some ''.tgz'') ''/home/me'' \<noteq> Inr ''.tgz''
   \<and> \<not> startsWith ''.tar.gz'' ''file:'' \<and> suffix ''.tar.gz'' ''.tar.gz''
   \<and> getTemplateInstallPackage plain_resolve (Some ''.tar.gz'') ''/home/me'' =
       Inr ''tjs-template-.tar.gz''
   \<and> getTemplateInstallPackage plain_resolve (Some ''.tar.gz'') ''/home/me'' \<noteq> Inr ''.tar.gz''"
  by code_simp

text \<open>
  Claim C5 as amended: an input that does not start with \<open>file:\<close> and that contains
  \<open>://\<close>, or that consists of a non-empty stem without line terminators followed by
  \<open>.tgz\<close> or \<open>.tar.gz\<close>, is returned unchanged.
\<close>

theorem C5_verbatim_amended:
  assumes "\<not> startsWith t ''file:''"
    and "includes_str t ''://''
         \<or> (stem \<noteq> [] \<and> dots stem \<and> (t = stem @ ''.tgz'' \<or> t = stem @ ''.tar.gz''))"
  shows "getTemplateInstallPackage resolve (Some t) d = Inr t"
proof -
  from assms(2) have ne: "t \<noteq> []"
    by (auto simp: includes_str_def)
  from assms(2) have "includes_str t ''://'' \<or> match_archive t"
    unfolding match_archive_def using match_stem_ext_append by blast
  with ne assms(1) show ?thesis by (rule verbatim_branch)
qed

text \<open>
  Claim C5 as amended, on \<open>http://example.com/x.tar.gz\<close> and on \<open>x.tgz\<close>.
\<close>

theorem C5_verbatim_amended_witness:
  "getTemplateInstallPackage plain_resolve (Some ''http://example.com/x.tar.gz'') ''/home/me'' =
     Inr ''http://example.com/x.tar.gz''
   \<and> getTemplateInstallPackage plain_resolve (Some ''x.tgz'') ''/home/me'' = Inr ''x.tgz''"
proof -
  have a: "\<not> startsWith ''http://example.com/x.tar.gz'' ''file:''"
      "includes_str ''http://example.com/x.tar.gz'' ''://''
       \<or> (''x'' \<noteq> [] \<and> dots ''x'' \<and> (''http://example.com/x.tar.gz'' = ''x'' @ ''.tgz''
            \<or> ''http://example.com/x.tar.gz'' = ''x'' @ ''.tar.gz''))"
    by code_simp+
  have b: "\<not> startsWith ''x.tgz'' ''file:''"
      "includes_str ''x.tgz'' ''://''
       \<or> (''x'' \<noteq> [] \<and> dots ''x'' \<and> (''x.tgz'' = ''x'' @ ''.tgz''
            \<or> ''x.tgz'' = ''x'' @ ''.tar.gz''))"
    by code_simp+
  from C5_verbatim_amended[OF a, of plain_resolve "''/home/me''"]
       C5_verbatim_amended[OF b, of plain_resolve "''/home/me''"]
  show ?thesis by simp
qed

text \<open>
  Claim C6 says that every input starting with \<open>file:\<close> resolves to \<open>file:\<close> followed by
  \<open>path.resolve\<close> of the base directory and the rest of the input. When the rest holds a
  line terminator, \<open>/^file:(.*)?$/\<close> does not match (\<open>.\<close> stops at the line terminator
  and \<open>$\<close> needs the end of the input), \<open>match\<close> gives \<open>null\<close>, and reading index 1 of it
  throws a \<open>TypeError\<close>. (For a non-empty rest without line terminators the claim's
  equation holds: \<open>file_branch\<close>.)
\<close>

theorem C6_file_line_terminator_throws:
  "getTemplateInstallPackage resolve (Some (''file:a'' @ [CHR 0x0A] @ ''b'')) d =
     Inl TypeError
   \<and> getTemplateInstallPackage resolve (Some (''file:a'' @ [CHR 0x0A] @ ''b'')) d \<noteq>
     Inr (''file:'' @ resolve d (''a'' @ [CHR 0x0A] @ ''b''))"
  by (simp add: getTemplateInstallPackage_def startsWith_def match_file_path_def
      dots_def is_line_terminator_def)

text \<open>
  Claim C7: with the template absent, or the empty string, the resolver returns
  \<open>tjs-template\<close>, whatever the base directory.
\<close>

theorem C7_default:
  "getTemplateInstallPackage resolve None d = Inr ''tjs-template''
   \<and> getTemplateInstallPackage resolve (Some []) d = Inr ''tjs-template''"
  by (simp add: getTemplateInstallPackage_def)

text \<open>
  Claim C8 says that resolving the result of a package-style input again gives the same
  result. The input \<open>@a/b@\<close> reaches the decomposition; with the scope \<open>@a/\<close> and the
  name \<open>b\<close> the rest \<open>@\<close> is no version (one more character is needed), so the matcher
  backtracks and the version group takes the whole input. The result is
  \<open>@a/b@/tjs-template\<close>, which decomposes into scope \<open>@a/\<close>, name \<open>b\<close> and version
  \<open>@/tjs-template\<close>, and resolves to something else.
\<close>

theorem C8_counterexample:
  "package_style ''@a/b@''
   \<and> getTemplateInstallPackage plain_resolve (Some ''@a/b@'') ''/home/me'' =
       Inr ''@a/b@/tjs-template''
   \<and> getTemplateInstallPackage plain_resolve (Some ''@a/b@/tjs-template'') ''/home/me'' =
       Inr ''@a/tjs-template-b@/tjs-template''
   \<and> getTemplateInstallPackage plain_resolve (Some ''@a/b@/tjs-template'') ''/home/me'' \<noteq>
       Inr ''@a/b@/tjs-template''"
  by code_simp

text \<open>
  Claim C8 as amended: for an input that reaches the decomposition and on which the
  resolver returns \<open>r\<close>, the resolver returns \<open>r\<close> on \<open>r\<close>, unless the input is taken as
  a scope alone (a version fragment, no scope, no name) and contains a \<open>/\<close>.
\<close>

theorem C8_idempotent_amended:
  assumes ps: "package_style t"
    and res: "getTemplateInstallPackage resolve (Some t) d = Inr r"
    and nso: "\<not> (scope_only t \<and> CHR ''/'' \<in> set t)"
  shows "getTemplateInstallPackage resolve (Some r) d = Inr r"
proof -
  obtain g1 g2 g3 where pm: "packageMatch t = Some (g1, g2, g3)"
    using package_branch_null[OF ps, of resolve d] res
    by (cases "packageMatch t") auto
  note ev = package_branch_eval[OF ps pm, of resolve d]
  note cat = packageMatch_concat[OF pm]
  let ?canonical = "or_empty g2 = ''tjs-template'' \<or> startsWith (or_empty g2) ''tjs-template-''"
  let ?only = "or_empty g3 \<noteq> [] \<and> or_empty g1 = [] \<and> or_empty g2 = []"
  consider (a) ?canonical | (b) "\<not> ?canonical" ?only | (c) "\<not> ?canonical" "\<not> ?only"
    by blast
  then show ?thesis
  proof cases
    case a
    with ev res cat have "r = t" by simp
    with res show ?thesis by simp
  next
    case b
    then have "scope_only t" by (simp add: scope_only_def pm)
    with nso have slash: "CHR ''/'' \<notin> set t" by simp
    from b(2) obtain w where w: "t = CHR ''@'' # w" "w \<noteq> []" "or_empty g3 = t"
      using scope_only_shape[OF pm] by metis
    from ev res b w(3) have r: "r = CHR ''@'' # w @ ''/tjs-template''"
      unfolding w(1) by simp
    from slash w(1) have "CHR ''/'' \<notin> set w" by simp
    from scoped_base_decomposes[OF w(2) this]
    have "getTemplateInstallPackage resolve (Some (CHR ''@'' # w @ ''/tjs-template'')) d =
          Inr (CHR ''@'' # w @ ''/tjs-template'')"
      by (rule canonical_fixed[rotated 2]) (simp_all add: startsWith_def)
    then show ?thesis unfolding r .
  next
    case c
    with ev res have r: "r = or_empty g1 @ ''tjs-template-'' @ or_empty g2 @ or_empty g3"
      by simp
    have "getTemplateInstallPackage resolve
            (Some (or_empty g1 @ ''tjs-template-'' @ or_empty g2 @ or_empty g3)) d =
          Inr (or_empty g1 @ ''tjs-template-'' @ or_empty g2 @ or_empty g3)"
      using packageMatch_injected[OF pm]
    proof (rule canonical_fixed[rotated 2])
      show "or_empty (Some (''tjs-template-'' @ or_empty g2)) = ''tjs-template''
            \<or> startsWith (or_empty (Some (''tjs-template-'' @ or_empty g2))) ''tjs-template-''"
        by (simp add: startsWith_def)
      show "or_empty g1 @ ''tjs-template-'' @ or_empty g2 @ or_empty g3 \<noteq> []"
        by simp
      show "\<not> startsWith (or_empty g1 @ ''tjs-template-'' @ or_empty g2 @ or_empty g3) ''file:''"
        using pm by (rule injected_not_file)
    qed
    then show ?thesis unfolding r .
  qed
qed

text \<open>
  Claim C8 as amended, on \<open>@scope/my-template@1.0.0\<close>.
\<close>

theorem C8_idempotent_amended_witness:
  "getTemplateInstallPackage plain_resolve (Some ''@scope/my-template@1.0.0'') ''/home/me'' =
     Inr ''@scope/tjs-template-my-template@1.0.0''
   \<and> getTemplateInstallPackage plain_resolve
        (Some ''@scope/tjs-template-my-template@1.0.0'') ''/home/me'' =
     Inr ''@scope/tjs-template-my-template@1.0.0''"
proof -
  have a: "package_style ''@scope/my-template@1.0.0''"
      "getTemplateInstallPackage plain_resolve (Some ''@scope/my-template@1.0.0'') ''/home/me'' =
         Inr ''@scope/tjs-template-my-template@1.0.0''"
      "\<not> (scope_only ''@scope/my-template@1.0.0''
          \<and> CHR ''/'' \<in> set ''@scope/my-template@1.0.0'')"
    by code_simp+
  from C8_idempotent_amended[OF a] a(2) show ?thesis by simp
qed

text \<open>
  Claim C9 says that the base directory matters in the local-path branch only, and
  that the result depends on nothing but the two arguments. The second part fails in
  the local-path branch: the result there is what \<open>path.resolve\<close> returns, and for a
  relative base directory \<open>path.resolve\<close> reads the working directory of the process.
  With the template \<open>file:x\<close> and the base directory \<open>rel\<close>, two working directories
  give two results.
\<close>

theorem C9_counterexample:
  "startsWith ''file:x'' ''file:''
   \<and> getTemplateInstallPackage (cwd_resolve ''/a'') (Some ''file:x'') ''rel'' =
       Inr ''file:/a/rel/x''
   \<and> getTemplateInstallPackage (cwd_resolve ''/b'') (Some ''file:x'') ''rel'' =
       Inr ''file:/b/rel/x''
   \<and> getTemplateInstallPackage (cwd_resolve ''/a'') (Some ''file:x'') ''rel'' \<noteq>
       getTemplateInstallPackage (cwd_resolve ''/b'') (Some ''file:x'') ''rel''"
  by code_simp

text \<open>
  Claim C9 as amended: for a template that is absent or does not start with \<open>file:\<close>,
  the result is the same for any two base directories and any two behaviours of
  \<open>path.resolve\<close>, so it depends on the template alone. For every template, the result
  depends on the base directory and on \<open>path.resolve\<close> only through the value of
  \<open>path.resolve\<close> on the base directory and the text after \<open>file:\<close>: two calls where
  this value is the same give the same result.
\<close>

theorem C9_result_dependence_amended:
  "(\<not> startsWith t ''file:'' \<longrightarrow>
      getTemplateInstallPackage resolve1 (Some t) d1 =
      getTemplateInstallPackage resolve2 (Some t) d2)
   \<and> getTemplateInstallPackage resolve1 None d1 =
       getTemplateInstallPackage resolve2 None d2
   \<and> (resolve1 d1 (drop 5 t) = resolve2 d2 (drop 5 t) \<longrightarrow>
      getTemplateInstallPackage resolve1 (Some t) d1 =
      getTemplateInstallPackage resolve2 (Some t) d2)"
proof -
  have outside: "getTemplateInstallPackage resolve1 (Some t) d1 =
      getTemplateInstallPackage resolve2 (Some t) d2"
    if "\<not> startsWith t ''file:''"
    using that by (simp add: getTemplateInstallPackage_def Let_def)
  have inside: "getTemplateInstallPackage resolve1 (Some t) d1 =
      getTemplateInstallPackage resolve2 (Some t) d2"
    if "startsWith t ''file:''" and "resolve1 d1 (drop 5 t) = resolve2 d2 (drop 5 t)"
    using that
    by (simp add: getTemplateInstallPackage_def Let_def match_file_path_def
        path_resolve_def startsWith_def)
  have absent: "getTemplateInstallPackage resolve1 None d1 =
      getTemplateInstallPackage resolve2 None d2"
    by (simp add: getTemplateInstallPackage_def)
  from outside inside absent show ?thesis by blast
qed

text \<open>
  Claim C9 as amended, on \<open>@scope/my-template\<close> with the base directories \<open>/home/me\<close>
  and \<open>/tmp\<close>, and on \<open>file:x\<close> with the absolute base directory \<open>/home/me\<close> under two
  working directories.
\<close>

theorem C9_result_dependence_amended_witness:
  "getTemplateInstallPackage plain_resolve (Some ''@scope/my-template'') ''/home/me'' =
     getTemplateInstallPackage plain_resolve (Some ''@scope/my-template'') ''/tmp''
   \<and> getTemplateInstallPackage plain_resolve None ''/home/me'' =
     getTemplateInstallPackage plain_resolve None ''/tmp''
   \<and> getTemplateInstallPackage (cwd_resolve ''/a'') (Some ''file:x'') ''/home/me'' =
     getTemplateInstallPackage (cwd_resolve ''/b'') (Some ''file:x'') ''/home/me''"
proof -
  have a: "\<not> startsWith ''@scope/my-template'' ''file:''"
    by code_simp
  have b: "cwd_resolve ''/a'' ''/home/me'' (drop 5 ''file:x'') =
           cwd_resolve ''/b'' ''/home/me'' (drop 5 ''file:x'')"
    by code_simp
  from C9_result_dependence_amended[of "''@scope/my-template''" plain_resolve
         "''/home/me''" plain_resolve "''/tmp''"] a
       C9_result_dependence_amended[of "''file:x''" "cwd_resolve ''/a''"
         "''/home/me''" "cwd_resolve ''/b''" "''/home/me''"] b
  show ?thesis by blast
qed

text \<open>
  Claim C10 says that the input \<open>file:\<close> resolves to \<open>file:\<close> followed by \<open>path.resolve\<close>
  of the base directory and the empty string. On \<open>file:\<close> the pattern matches with its
  group \<open>undefined\<close>, not empty: \<open>(.*)?\<close> can only match the empty string there, and an
  optional iteration that consumes nothing is discarded. \<open>path.resolve\<close> is called with
  \<open>undefined\<close> and throws a \<open>TypeError\<close>.
\<close>

theorem C10_empty_file_path_throws:
  "match_file_path ''file:'' = Some None
   \<and> getTemplateInstallPackage resolve (Some ''file:'') d = Inl TypeError
   \<and> getTemplateInstallPackage resolve (Some ''file:'') d \<noteq> Inr (''file:'' @ resolve d [])"
  by (simp add: getTemplateInstallPackage_def startsWith_def match_file_path_def
      path_resolve_def)

end
